theory Spec2Isabelle
  imports Main
begin

section \<open>The authentication server\<close>

text \<open>
  A shallow embedding of the Express server of the repository: the middleware
  \<open>authenticateToken\<close> and the four routes \<open>/api/register\<close>, \<open>/api/login\<close>,
  \<open>/api/profile\<close> and \<open>/api/verify\<close>.

  The server is glue around three external packages: the MongoDB driver, bcryptjs and
  jsonwebtoken. The collection \<open>users\<close> is modelled as the list of its documents; the
  calls into bcryptjs and jsonwebtoken are parameters of every handler (the record
  \<open>libs\<close>), so every theorem holds for whatever these packages compute. What varies from
  one request to the next outside the program (the clock, the salt bcryptjs draws, a
  driver call that throws) is the record \<open>env\<close>. A handler as a whole is a function
  from the store to a response and the store; where it matters that other requests are
  answered between the awaits of a handler, the events at the store are interleaved
  one by one (\<open>step\<close>, \<open>run\<close>).
\<close>

subsection \<open>JSON bodies and responses\<close>

text \<open>
  \<open>JId\<close> is an ObjectId, \<open>JDate\<close> a Date; an object keeps its fields in the order the
  source writes them.
\<close>

datatype json =
    JStr string
  | JNum nat
  | JId nat
  | JDate nat
  | JObj "(string \<times> json) list"

record response =
  status :: nat
  body :: json

text \<open>\<open>res.status(code).json({ message })\<close>\<close>

definition message :: "nat \<Rightarrow> string \<Rightarrow> response" where
  "message code msg = \<lparr>status = code, body = JObj [(''message'', JStr msg)]\<rparr>"

text \<open>
  Whether a field called \<open>k\<close> occurs anywhere in a JSON value, at any depth.
\<close>

fun has_key :: "string \<Rightarrow> json \<Rightarrow> bool" where
  "has_key k (JObj kvs) = (\<exists>kv \<in> set kvs. fst kv = k \<or> has_key k (snd kv))"
| "has_key k (JStr s) = False"
| "has_key k (JNum n) = False"
| "has_key k (JId i) = False"
| "has_key k (JDate t) = False"

subsection \<open>Request fields\<close>

text \<open>
  A field of \<open>req.body\<close>, and the \<open>authorization\<close> header, is a string or is missing
  (\<open>None\<close>, the source's \<open>undefined\<close>): the client sends
  \<open>JSON.stringify({ name, email, password })\<close> of three strings. \<open>js_not v\<close> is the
  source's \<open>!v\<close>: true of \<open>undefined\<close> and of the empty string.
\<close>

definition js_not :: "string option \<Rightarrow> bool" where
  "js_not v = (case v of None \<Rightarrow> True | Some s \<Rightarrow> s = [])"

fun str_of :: "string option \<Rightarrow> string" where
  "str_of None = []"
| "str_of (Some s) = s"

record register_body =
  reg_name :: "string option"
  reg_email :: "string option"
  reg_password :: "string option"

record login_body =
  login_email :: "string option"
  login_password :: "string option"

subsection \<open>The collection \<open>users\<close>\<close>

text \<open>
  A document of the collection has the fields the register route stores, and the
  \<open>_id\<close> the driver gives it. The database keeps, beside the documents, the counter
  the next \<open>_id\<close> is taken from and the list of the driver calls made so far, which
  is how a theorem says that a handler did or did not reach the store.
\<close>

record user_doc =
  doc_id :: nat
  doc_name :: string
  doc_email :: string
  doc_password :: string
  doc_createdAt :: nat

record new_user =
  new_name :: string
  new_email :: string
  new_password :: string
  new_createdAt :: nat

datatype db_call =
    FindOneByEmail string
  | FindOneById nat
  | InsertOne new_user

record db =
  users :: "user_doc list"
  next_id :: nat
  calls :: "db_call list"

text \<open>
  \<open>db.collection('users').findOne({ email })\<close>: the first document whose email is the
  given string, compared as it stands; \<open>None\<close> is the driver's \<open>null\<close>. A driver call
  that throws is \<open>Inl ()\<close>.
\<close>

definition findOne_email :: "bool \<Rightarrow> string \<Rightarrow> db \<Rightarrow> (unit + user_doc option) \<times> db" where
  "findOne_email throws e d =
     (if throws then Inl () else Inr (find (\<lambda>u. doc_email u = e) (users d)),
      d\<lparr>calls := calls d @ [FindOneByEmail e]\<rparr>)"

text \<open>The fields of a stored document, as the driver returns them.\<close>

definition doc_json :: "user_doc \<Rightarrow> (string \<times> json) list" where
  "doc_json u =
     [(''_id'', JId (doc_id u)), (''name'', JStr (doc_name u)), (''email'', JStr (doc_email u)),
      (''password'', JStr (doc_password u)), (''createdAt'', JDate (doc_createdAt u))]"

text \<open>
  \<open>findOne({ _id: new ObjectId(id) }, { projection: { password: 0 } })\<close>: the document
  with that \<open>_id\<close>, without its \<open>password\<close> field.
\<close>

definition findOne_id :: "bool \<Rightarrow> nat \<Rightarrow> db \<Rightarrow> (unit + json option) \<times> db" where
  "findOne_id throws i d =
     (if throws then Inl ()
      else Inr (map_option (\<lambda>u. JObj (filter (\<lambda>kv. fst kv \<noteq> ''password'') (doc_json u)))
                  (find (\<lambda>u. doc_id u = i) (users d))),
      d\<lparr>calls := calls d @ [FindOneById i]\<rparr>)"

text \<open>
  \<open>db.collection('users').insertOne(user)\<close>: the document is added under a fresh
  \<open>_id\<close>, which is the \<open>insertedId\<close> of the result. Nothing is added when the call
  throws.
\<close>

definition insertOne :: "bool \<Rightarrow> new_user \<Rightarrow> db \<Rightarrow> (unit + nat) \<times> db" where
  "insertOne throws u d =
     (if throws then (Inl (), d\<lparr>calls := calls d @ [InsertOne u]\<rparr>)
      else (Inr (next_id d),
            d\<lparr>users := users d @
                 [\<lparr>doc_id = next_id d, doc_name = new_name u, doc_email = new_email u,
                   doc_password = new_password u, doc_createdAt = new_createdAt u\<rparr>],
              next_id := Suc (next_id d),
              calls := calls d @ [InsertOne u]\<rparr>))"

subsection \<open>The external packages and the environment\<close>

text \<open>
  The payload the routes sign is \<open>{ userId, email }\<close>; a verified token gives it back
  with the \<open>iat\<close> and \<open>exp\<close> jsonwebtoken added. The errors are jsonwebtoken's two
  classes.
\<close>

record payload =
  userId :: nat
  email :: string

record claims = payload +
  iat :: nat
  exp :: nat

datatype jwt_error = TokenExpiredError | JsonWebTokenError string

text \<open>
  \<open>bcrypt_hash password rounds salt\<close> is \<open>bcrypt.hash(password, rounds)\<close> when bcryptjs
  draws \<open>salt\<close>; \<open>bcrypt_compare password hash\<close> is \<open>bcrypt.compare\<close>;
  \<open>jwt_sign payload secret expiresIn now\<close> is \<open>jwt.sign(payload, secret, { expiresIn })\<close>
  at the time \<open>now\<close>, \<open>None\<close> when it throws (as it does without a secret);
  \<open>jwt_verify token secret now\<close> is what \<open>jwt.verify\<close> hands to its callback: the
  error, or the decoded payload.
\<close>

record libs =
  bcrypt_hash :: "string \<Rightarrow> nat \<Rightarrow> string \<Rightarrow> string"
  bcrypt_compare :: "string \<Rightarrow> string \<Rightarrow> bool"
  jwt_sign :: "payload \<Rightarrow> string option \<Rightarrow> nat \<Rightarrow> nat \<Rightarrow> string option"
  jwt_verify :: "string \<Rightarrow> string option \<Rightarrow> nat \<Rightarrow> jwt_error + claims"

text \<open>\<open>process.env.JWT_SECRET\<close>, which may be unset.\<close>

record config =
  JWT_SECRET :: "string option"

text \<open>
  What one request finds outside the program: the time in seconds, the salt bcryptjs
  draws for a hash, and whether the driver's \<open>findOne\<close> and \<open>insertOne\<close> throw.
\<close>

record env =
  now :: nat
  salt :: string
  findOne_throws :: bool
  insertOne_throws :: bool

text \<open>\<open>expiresIn: '7d'\<close>, in seconds.\<close>

definition seven_days :: nat where
  "seven_days = 7 * 24 * 60 * 60"

definition saltRounds :: nat where
  "saltRounds = 10"

definition server_error :: response where
  "server_error = message 500 ''Server error''"

subsection \<open>The middleware \<open>authenticateToken\<close>\<close>

text \<open>
  \<open>s.split(' ')\<close> of JavaScript: the pieces between single spaces; the empty string
  gives one empty piece.
\<close>

fun split_space :: "string \<Rightarrow> string list" where
  "split_space [] = [[]]"
| "split_space (c # cs) =
     (if c = CHR '' '' then [] # split_space cs
      else (case split_space cs of [] \<Rightarrow> [[c]] | w # ws \<Rightarrow> (c # w) # ws))"

text \<open>
  \<open>authHeader && authHeader.split(' ')[1]\<close>: a missing header and the empty header stay
  as they are, every other header gives its second piece, if it has one.
\<close>

definition header_token :: "string option \<Rightarrow> string option" where
  "header_token authHeader =
     (case authHeader of
        None \<Rightarrow> None
      | Some h \<Rightarrow>
          if h = [] then Some []
          else (case split_space h of _ # t # _ \<Rightarrow> Some t | _ \<Rightarrow> None))"

text \<open>
  The callback given to \<open>jwt.verify\<close>: on an error the request is answered, otherwise
  the payload becomes \<open>req.user\<close> and the next handler runs (\<open>Inr\<close>).
\<close>

definition verify_callback :: "jwt_error + claims \<Rightarrow> response + claims" where
  "verify_callback r =
     (case r of
        Inl err \<Rightarrow> Inl (message 403 ''Invalid or expired token'')
      | Inr user \<Rightarrow> Inr user)"

definition authenticateToken :: "libs \<Rightarrow> config \<Rightarrow> env \<Rightarrow> string option \<Rightarrow> response + claims" where
  "authenticateToken L cfg E authHeader =
     (let token = header_token authHeader in
      if js_not token then Inl (message 401 ''Access token required'')
      else verify_callback (jwt_verify L (str_of token) (JWT_SECRET cfg) (now E)))"

subsection \<open>The routes\<close>

text \<open>The object \<open>{ id, name, email }\<close> the register and login routes answer with.\<close>

definition user_json :: "nat \<Rightarrow> string \<Rightarrow> string \<Rightarrow> json" where
  "user_json i n e = JObj [(''id'', JId i), (''name'', JStr n), (''email'', JStr e)]"

text \<open>\<open>POST /api/register\<close>, after the check of the three fields.\<close>

definition register_user :: "libs \<Rightarrow> config \<Rightarrow> env \<Rightarrow> string \<Rightarrow> string \<Rightarrow> string \<Rightarrow> db \<Rightarrow> response \<times> db" where
  "register_user L cfg E name' email' password' d =
     (case findOne_email (findOne_throws E) email' d of
        (Inl _, d1) \<Rightarrow> (server_error, d1)
      | (Inr (Some existingUser), d1) \<Rightarrow> (message 400 ''User already exists'', d1)
      | (Inr None, d1) \<Rightarrow>
          (let hashedPassword = bcrypt_hash L password' saltRounds (salt E);
               user = \<lparr>new_name = name', new_email = email', new_password = hashedPassword,
                       new_createdAt = now E\<rparr>
           in case insertOne (insertOne_throws E) user d1 of
                (Inl _, d2) \<Rightarrow> (server_error, d2)
              | (Inr insertedId, d2) \<Rightarrow>
                  (case jwt_sign L \<lparr>userId = insertedId, email = new_email user\<rparr>
                          (JWT_SECRET cfg) seven_days (now E) of
                     None \<Rightarrow> (server_error, d2)
                   | Some token \<Rightarrow>
                       (\<lparr>status = 201,
                         body = JObj [(''message'', JStr ''User created successfully''),
                                      (''token'', JStr token),
                                      (''user'', user_json insertedId (new_name user) (new_email user))]\<rparr>,
                        d2))))"

definition register :: "libs \<Rightarrow> config \<Rightarrow> env \<Rightarrow> register_body \<Rightarrow> db \<Rightarrow> response \<times> db" where
  "register L cfg E req d =
     (if js_not (reg_email req) \<or> js_not (reg_password req) \<or> js_not (reg_name req)
      then (message 400 ''All fields are required'', d)
      else register_user L cfg E (str_of (reg_name req)) (str_of (reg_email req))
             (str_of (reg_password req)) d)"

text \<open>\<open>POST /api/login\<close>, after the check of the two fields.\<close>

definition login_user :: "libs \<Rightarrow> config \<Rightarrow> env \<Rightarrow> string \<Rightarrow> string \<Rightarrow> db \<Rightarrow> response \<times> db" where
  "login_user L cfg E email' password' d =
     (case findOne_email (findOne_throws E) email' d of
        (Inl _, d1) \<Rightarrow> (server_error, d1)
      | (Inr None, d1) \<Rightarrow> (message 400 ''Invalid credentials'', d1)
      | (Inr (Some user), d1) \<Rightarrow>
          if \<not> bcrypt_compare L password' (doc_password user)
          then (message 400 ''Invalid credentials'', d1)
          else (case jwt_sign L \<lparr>userId = doc_id user, email = doc_email user\<rparr>
                       (JWT_SECRET cfg) seven_days (now E) of
                  None \<Rightarrow> (server_error, d1)
                | Some token \<Rightarrow>
                    (\<lparr>status = 200,
                      body = JObj [(''message'', JStr ''Login successful''),
                                   (''token'', JStr token),
                                   (''user'', user_json (doc_id user) (doc_name user) (doc_email user))]\<rparr>,
                     d1)))"

definition login :: "libs \<Rightarrow> config \<Rightarrow> env \<Rightarrow> login_body \<Rightarrow> db \<Rightarrow> response \<times> db" where
  "login L cfg E req d =
     (if js_not (login_email req) \<or> js_not (login_password req)
      then (message 400 ''Email and password are required'', d)
      else login_user L cfg E (str_of (login_email req)) (str_of (login_password req)) d)"

text \<open>
  \<open>GET /api/profile\<close>, behind \<open>authenticateToken\<close>. The user id of a decoded
  payload is an id the server signed, so \<open>new ObjectId\<close> of it is that id.
\<close>

definition profile :: "libs \<Rightarrow> config \<Rightarrow> env \<Rightarrow> string option \<Rightarrow> db \<Rightarrow> response \<times> db" where
  "profile L cfg E authHeader d =
     (case authenticateToken L cfg E authHeader of
        Inl rejected \<Rightarrow> (rejected, d)
      | Inr req_user \<Rightarrow>
          (case findOne_id (findOne_throws E) (userId req_user) d of
             (Inl _, d1) \<Rightarrow> (server_error, d1)
           | (Inr None, d1) \<Rightarrow> (message 404 ''User not found'', d1)
           | (Inr (Some user), d1) \<Rightarrow> (\<lparr>status = 200, body = JObj [(''user'', user)]\<rparr>, d1)))"

text \<open>The decoded payload, as \<open>res.json\<close> writes it.\<close>

definition claims_json :: "claims \<Rightarrow> json" where
  "claims_json c =
     JObj [(''userId'', JId (userId c)), (''email'', JStr (email c)),
           (''iat'', JNum (iat c)), (''exp'', JNum (exp c))]"

text \<open>\<open>GET /api/verify\<close>, behind \<open>authenticateToken\<close>.\<close>

definition verify :: "libs \<Rightarrow> config \<Rightarrow> env \<Rightarrow> string option \<Rightarrow> db \<Rightarrow> response \<times> db" where
  "verify L cfg E authHeader d =
     (case authenticateToken L cfg E authHeader of
        Inl rejected \<Rightarrow> (rejected, d)
      | Inr req_user \<Rightarrow>
          (\<lparr>status = 200,
            body = JObj [(''message'', JStr ''Token is valid''), (''user'', claims_json req_user)]\<rparr>,
           d))"

subsection \<open>Requests in flight\<close>

text \<open>
  The handlers are async functions: a handler gives control back at each \<open>await\<close>, and
  the server answers other requests in between. The register handler reaches the store
  twice, at \<open>await findOne\<close> and at \<open>await insertOne\<close>. \<open>register_find\<close> is the handler
  up to the result of \<open>findOne\<close>, together with the hash and the document it builds
  next, which do not read the store: it ends the request with a response (\<open>Inl\<close>) or
  goes on with the document to insert (\<open>Inr\<close>). \<open>register_insert\<close> is the rest of the
  handler, run on the store as it is by then. Run one after the other with nothing in
  between they are \<open>register\<close> (lemma \<open>register_in_two_steps\<close>).
\<close>

definition register_find :: "libs \<Rightarrow> config \<Rightarrow> env \<Rightarrow> register_body \<Rightarrow> db \<Rightarrow> (response + new_user) \<times> db" where
  "register_find L cfg E req d =
     (if js_not (reg_email req) \<or> js_not (reg_password req) \<or> js_not (reg_name req)
      then (Inl (message 400 ''All fields are required''), d)
      else (case findOne_email (findOne_throws E) (str_of (reg_email req)) d of
              (Inl _, d1) \<Rightarrow> (Inl server_error, d1)
            | (Inr (Some existingUser), d1) \<Rightarrow> (Inl (message 400 ''User already exists''), d1)
            | (Inr None, d1) \<Rightarrow>
                (Inr \<lparr>new_name = str_of (reg_name req), new_email = str_of (reg_email req),
                      new_password = bcrypt_hash L (str_of (reg_password req)) saltRounds (salt E),
                      new_createdAt = now E\<rparr>, d1)))"

definition register_insert :: "libs \<Rightarrow> config \<Rightarrow> env \<Rightarrow> new_user \<Rightarrow> db \<Rightarrow> response \<times> db" where
  "register_insert L cfg E user d =
     (case insertOne (insertOne_throws E) user d of
        (Inl _, d2) \<Rightarrow> (server_error, d2)
      | (Inr insertedId, d2) \<Rightarrow>
          (case jwt_sign L \<lparr>userId = insertedId, email = new_email user\<rparr>
                  (JWT_SECRET cfg) seven_days (now E) of
             None \<Rightarrow> (server_error, d2)
           | Some token \<Rightarrow>
               (\<lparr>status = 201,
                 body = JObj [(''message'', JStr ''User created successfully''),
                              (''token'', JStr token),
                              (''user'', user_json insertedId (new_name user) (new_email user))]\<rparr>,
                d2)))"

text \<open>
  The server between two events: the store, and the registrations that have had the
  result of their \<open>findOne\<close> and not yet run their \<open>insertOne\<close>, each with its
  environment and the document it is about to insert.
\<close>

record server =
  store :: db
  in_flight :: "(env \<times> new_user) list"

text \<open>
  What happens at the store, one event at a time, in any order the event loop takes:
  a register request arrives and runs up to the result of its \<open>findOne\<close>; the
  registration at some position of the list of those in flight runs its \<open>insertOne\<close>
  and answers; a login, profile or verify request is answered (these handlers reach the
  store at most once).
\<close>

datatype event =
    RegisterArrives env register_body
  | RegisterResumes nat
  | LoginRequest env login_body
  | ProfileRequest env "string option"
  | VerifyRequest env "string option"

fun step :: "libs \<Rightarrow> config \<Rightarrow> event \<Rightarrow> server \<Rightarrow> server" where
  "step L cfg (RegisterArrives E req) s =
     (case register_find L cfg E req (store s) of
        (Inl answered, d1) \<Rightarrow> s\<lparr>store := d1\<rparr>
      | (Inr user, d1) \<Rightarrow> s\<lparr>store := d1, in_flight := in_flight s @ [(E, user)]\<rparr>)"
| "step L cfg (RegisterResumes i) s =
     (if i < length (in_flight s)
      then s\<lparr>store := snd (register_insert L cfg (fst (in_flight s ! i)) (snd (in_flight s ! i))
                            (store s)),
             in_flight := take i (in_flight s) @ drop (Suc i) (in_flight s)\<rparr>
      else s)"
| "step L cfg (LoginRequest E req) s = s\<lparr>store := snd (login L cfg E req (store s))\<rparr>"
| "step L cfg (ProfileRequest E h) s = s\<lparr>store := snd (profile L cfg E h (store s))\<rparr>"
| "step L cfg (VerifyRequest E h) s = s\<lparr>store := snd (verify L cfg E h (store s))\<rparr>"

fun run :: "libs \<Rightarrow> config \<Rightarrow> event list \<Rightarrow> server \<Rightarrow> server" where
  "run L cfg [] s = s"
| "run L cfg (ev # evs) s = run L cfg evs (step L cfg ev s)"

subsection \<open>The client side of a token\<close>


definition bearer :: "string \<Rightarrow> string option" where
  "bearer token = Some (''Bearer '' @ token)"

subsection \<open>Notions the properties are stated with\<close>

text \<open>The documents of the collection stored under an email, compared as it stands.\<close>

definition records_for :: "string \<Rightarrow> db \<Rightarrow> user_doc list" where
  "records_for e d = filter (\<lambda>u. doc_email u = e) (users d)"

text \<open>Whether a registration of the email \<open>e\<close> is in flight.\<close>

definition registering :: "string \<Rightarrow> server \<Rightarrow> bool" where
  "registering e s = list_ex (\<lambda>p. new_email (snd p) = e) (in_flight s)"

text \<open>
  The email \<open>e\<close> is settled: the store holds exactly one document with it and no
  registration of it is in flight.
\<close>

definition settled :: "string \<Rightarrow> server \<Rightarrow> bool" where
  "settled e s \<longleftrightarrow> length (records_for e (store s)) = 1 \<and> \<not> registering e s"

text \<open>
  Case folding of the ASCII letters. The source has no such function: it is the
  normalization the specification compares emails under, and it is used only to say
  what the source does not do.
\<close>

definition lower_case :: "char \<Rightarrow> char" where
  "lower_case c =
     (case map_of (zip ''ABCDEFGHIJKLMNOPQRSTUVWXYZ'' ''abcdefghijklmnopqrstuvwxyz'') c of
        None \<Rightarrow> c
      | Some l \<Rightarrow> l)"

definition normalized_records_for :: "string \<Rightarrow> db \<Rightarrow> user_doc list" where
  "normalized_records_for e d =
     filter (\<lambda>u. map lower_case (doc_email u) = map lower_case e) (users d)"


subsection \<open>A run of the example of the specification\<close>

text \<open>
  An instance of the two packages that is enough to run the handlers on the example
  \<open>register("Ada", "ada@example.com", "s3cret!")\<close>: its hash is the salt followed by the
  password, it signs with any non-empty secret, and it verifies the tokens of that
  one account.
\<close>

definition example_verify :: "string \<Rightarrow> string option \<Rightarrow> nat \<Rightarrow> jwt_error + claims" where
  "example_verify token secret t =
     (if secret \<noteq> Some ''k3y'' then Inl (JsonWebTokenError ''invalid signature'')
      else if token = ''0.ada@example.com.k3y''
      then (if seven_days \<le> t then Inl TokenExpiredError
            else Inr \<lparr>userId = 0, email = ''ada@example.com'', iat = 0, exp = seven_days\<rparr>)
      else if token = ''0.ada@example.com.xxx'' then Inl (JsonWebTokenError ''invalid signature'')
      else Inl (JsonWebTokenError ''jwt malformed''))"

definition example_libs :: libs where
  "example_libs =
     \<lparr>bcrypt_hash = (\<lambda>password rounds s. s @ password),
      bcrypt_compare = (\<lambda>password hash. drop 4 hash = password),
      jwt_sign = (\<lambda>p secret expiresIn t.
         case secret of
           None \<Rightarrow> None
         | Some k \<Rightarrow> if k = [] then None
                     else Some (replicate (userId p) CHR ''1'' @ ''0.'' @ email p @ ''.'' @ k)),
      jwt_verify = example_verify\<rparr>"

definition example_config :: config where
  "example_config = \<lparr>JWT_SECRET = Some ''k3y''\<rparr>"

definition example_env :: env where
  "example_env = \<lparr>now = 0, salt = ''salt'', findOne_throws = False, insertOne_throws = False\<rparr>"

definition empty_db :: db where
  "empty_db = \<lparr>users = [], next_id = 0, calls = []\<rparr>"

definition ada :: register_body where
  "ada = \<lparr>reg_name = Some ''Ada'', reg_email = Some ''ada@example.com'',
          reg_password = Some ''s3cret!''\<rparr>"

text \<open>The database after Ada has registered.\<close>

definition ada_db :: db where
  "ada_db = snd (register example_libs example_config example_env ada empty_db)"

section \<open>Properties\<close>

lemma js_not_iff: "js_not v \<longleftrightarrow> v = None \<or> v = Some []"
  by (cases v) (simp_all add: js_not_def)

lemmas example_defs =
  example_libs_def example_config_def example_env_def empty_db_def ada_def
  example_verify_def seven_days_def saltRounds_def

lemmas handler_defs =
  register_def register_user_def login_def login_user_def profile_def verify_def
  authenticateToken_def verify_callback_def header_token_def bearer_def js_not_def
  findOne_email_def findOne_id_def insertOne_def Let_def

subsection \<open>The example run\<close>

lemma ada_registered:
  "register example_libs example_config example_env ada empty_db =
     (\<lparr>status = 201,
       body = JObj [(''message'', JStr ''User created successfully''),
                    (''token'', JStr ''0.ada@example.com.k3y''),
                    (''user'', user_json 0 ''Ada'' ''ada@example.com'')]\<rparr>,
      \<lparr>users = [\<lparr>doc_id = 0, doc_name = ''Ada'', doc_email = ''ada@example.com'',
                 doc_password = ''salts3cret!'', doc_createdAt = 0\<rparr>],
        next_id = 1,
        calls = [FindOneByEmail ''ada@example.com'',
                 InsertOne \<lparr>new_name = ''Ada'', new_email = ''ada@example.com'',
                            new_password = ''salts3cret!'', new_createdAt = 0\<rparr>]\<rparr>)"
  by (simp add: example_defs handler_defs)

lemma ada_db_eq:
  "ada_db =
     \<lparr>users = [\<lparr>doc_id = 0, doc_name = ''Ada'', doc_email = ''ada@example.com'',
                doc_password = ''salts3cret!'', doc_createdAt = 0\<rparr>],
       next_id = 1,
       calls = [FindOneByEmail ''ada@example.com'',
                InsertOne \<lparr>new_name = ''Ada'', new_email = ''ada@example.com'',
                           new_password = ''salts3cret!'', new_createdAt = 0\<rparr>]\<rparr>"
  by (simp add: ada_db_def ada_registered)

lemma ada_token_header:
  "header_token (bearer ''0.ada@example.com.k3y'') = Some ''0.ada@example.com.k3y''"
  by (simp add: header_token_def bearer_def)

lemma ada_token_verified:
  "jwt_verify example_libs ''0.ada@example.com.k3y'' (JWT_SECRET example_config) (now example_env) =
     Inr \<lparr>userId = 0, email = ''ada@example.com'', iat = 0, exp = 604800\<rparr>"
  by (simp add: example_defs)

subsection \<open>The authorization header\<close>



lemma authenticateToken_accepts:
  "header_token h = Some t \<Longrightarrow> t \<noteq> [] \<Longrightarrow> jwt_verify L t (JWT_SECRET cfg) (now E) = Inr c \<Longrightarrow>
   authenticateToken L cfg E h = Inr c"
  by (simp add: authenticateToken_def verify_callback_def js_not_def)

lemma authenticateToken_rejects:
  "header_token h = Some t \<Longrightarrow> t \<noteq> [] \<Longrightarrow> jwt_verify L t (JWT_SECRET cfg) (now E) = Inl err \<Longrightarrow>
   authenticateToken L cfg E h = Inl (message 403 ''Invalid or expired token'')"
  by (simp add: authenticateToken_def verify_callback_def js_not_def)

subsection \<open>Validation of the request fields\<close>

lemma register_user_not_invalid:
  "fst (register_user L cfg E n e p d) \<noteq> message 400 ''All fields are required''"
  by (simp add: register_user_def findOne_email_def insertOne_def message_def server_error_def
      Let_def split: option.splits sum.splits prod.splits)

lemma login_user_not_invalid:
  "fst (login_user L cfg E e p d) \<noteq> message 400 ''Email and password are required''"
  by (simp add: login_user_def findOne_email_def message_def server_error_def
      split: option.splits sum.splits prod.splits)

text \<open>
  Claim C7. The register route answers 400 ``All fields are required'' exactly when
  one of name, email and password is missing or empty, and then the database is as it
  was, its list of driver calls included: no lookup and no insert was made. The login
  route answers 400 ``Email and password are required'' exactly when email or password
  is missing or empty, and then the database is as it was.
\<close>

theorem invalid_input_exactly_when_field_missing:
  "(fst (register L cfg E req d) = message 400 ''All fields are required'' \<longleftrightarrow>
      reg_name req \<in> {None, Some []} \<or> reg_email req \<in> {None, Some []} \<or>
      reg_password req \<in> {None, Some []}) \<and>
   (fst (register L cfg E req d) = message 400 ''All fields are required'' \<longrightarrow>
      snd (register L cfg E req d) = d) \<and>
   (fst (login L cfg E lreq d) = message 400 ''Email and password are required'' \<longleftrightarrow>
      login_email lreq \<in> {None, Some []} \<or> login_password lreq \<in> {None, Some []}) \<and>
   (fst (login L cfg E lreq d) = message 400 ''Email and password are required'' \<longrightarrow>
      snd (login L cfg E lreq d) = d)"
  using register_user_not_invalid login_user_not_invalid
  by (auto simp add: register_def login_def js_not_iff)

theorem invalid_input_exactly_when_field_missing_witness:
  "fst (register example_libs example_config example_env (ada\<lparr>reg_name := Some []\<rparr>) ada_db) =
     message 400 ''All fields are required'' \<and>
   snd (register example_libs example_config example_env (ada\<lparr>reg_name := Some []\<rparr>) ada_db) =
     ada_db \<and>
   fst (login example_libs example_config example_env
          \<lparr>login_email = Some ''ada@example.com'', login_password = None\<rparr> ada_db) =
     message 400 ''Email and password are required'' \<and>
   snd (login example_libs example_config example_env
          \<lparr>login_email = Some ''ada@example.com'', login_password = None\<rparr> ada_db) = ada_db"
  using invalid_input_exactly_when_field_missing
          [of example_libs example_config example_env "ada\<lparr>reg_name := Some []\<rparr>" ada_db
              "\<lparr>login_email = Some ''ada@example.com'', login_password = None\<rparr>"]
  by (simp add: ada_def)

subsection \<open>Login\<close>

text \<open>
  Claim C3. Take two login calls with non-empty fields whose lookup does not throw. If
  the email of the first matches no stored document, and the email of the second
  matches a document whose stored hash \<open>bcrypt.compare\<close> does not accept for the given
  password, the two calls get the same response: 400 ``Invalid credentials''.
\<close>

theorem login_errors_identical:
  assumes "\<not> js_not (login_email a)" and "\<not> js_not (login_password a)"
    and "\<not> js_not (login_email b)" and "\<not> js_not (login_password b)"
    and "\<not> findOne_throws Ea" and "\<not> findOne_throws Eb"
    and "find (\<lambda>u. doc_email u = str_of (login_email a)) (users da) = None"
    and "find (\<lambda>u. doc_email u = str_of (login_email b)) (users db) = Some u"
    and "\<not> bcrypt_compare L (str_of (login_password b)) (doc_password u)"
  shows "fst (login L cfg Ea a da) = message 400 ''Invalid credentials'' \<and>
         fst (login L cfg Eb b db) = fst (login L cfg Ea a da)"
  using assms by (simp add: login_def login_user_def findOne_email_def)

theorem login_errors_identical_witness:
  "fst (login example_libs example_config example_env
          \<lparr>login_email = Some ''bob@example.com'', login_password = Some ''s3cret!''\<rparr> ada_db) =
     message 400 ''Invalid credentials'' \<and>
   fst (login example_libs example_config example_env
          \<lparr>login_email = Some ''ada@example.com'', login_password = Some ''wrong''\<rparr> ada_db) =
   fst (login example_libs example_config example_env
          \<lparr>login_email = Some ''bob@example.com'', login_password = Some ''s3cret!''\<rparr> ada_db)"
proof -
  let ?u = "\<lparr>doc_id = 0, doc_name = ''Ada'', doc_email = ''ada@example.com'',
             doc_password = ''salts3cret!'', doc_createdAt = 0\<rparr>"
  let ?a = "\<lparr>login_email = Some ''bob@example.com'', login_password = Some ''s3cret!''\<rparr>"
  let ?b = "\<lparr>login_email = Some ''ada@example.com'', login_password = Some ''wrong''\<rparr>"
  have 1: "\<not> js_not (login_email ?a)" and 2: "\<not> js_not (login_password ?a)"
    and 3: "\<not> js_not (login_email ?b)" and 4: "\<not> js_not (login_password ?b)"
    by (simp_all add: js_not_def)
  have 5: "\<not> findOne_throws example_env"
    by (simp add: example_env_def)
  have 6: "find (\<lambda>u. doc_email u = str_of (login_email ?a)) (users ada_db) = None"
    by (simp add: ada_db_eq)
  have 7: "find (\<lambda>u. doc_email u = str_of (login_email ?b)) (users ada_db) = Some ?u"
    by (simp add: ada_db_eq)
  have 8: "\<not> bcrypt_compare example_libs (str_of (login_password ?b)) (doc_password ?u)"
    by (simp add: example_libs_def)
  show ?thesis
    using login_errors_identical [OF 1 2 3 4 5 5 6 7 8, of example_config] by simp
qed

subsection \<open>Token verification\<close>

text \<open>
  Claim C8. When the header carries a token that \<open>jwt.verify\<close> accepts, the verify
  route answers 200 with exactly the decoded payload (user id and email, with the
  timestamps jsonwebtoken keeps beside them). The database is as it was, its list of
  driver calls included, so the store was not read, and the response is the same
  whatever the database holds.
\<close>

theorem verify_returns_embedded_claims:
  assumes "header_token h = Some t" and "t \<noteq> []"
    and "jwt_verify L t (JWT_SECRET cfg) (now E) = Inr c"
  shows "verify L cfg E h d =
           (\<lparr>status = 200,
             body = JObj [(''message'', JStr ''Token is valid''),
                          (''user'', JObj [(''userId'', JId (userId c)), (''email'', JStr (email c)),
                                           (''iat'', JNum (iat c)), (''exp'', JNum (exp c))])]\<rparr>, d) \<and>
         (\<forall>d'. fst (verify L cfg E h d') = fst (verify L cfg E h d))"
  using authenticateToken_accepts [OF assms]
  by (simp add: verify_def claims_json_def)

theorem verify_returns_embedded_claims_witness:
  "header_token (bearer ''0.ada@example.com.k3y'') = Some ''0.ada@example.com.k3y'' \<and>
   jwt_verify example_libs ''0.ada@example.com.k3y'' (JWT_SECRET example_config) (now example_env) =
     Inr \<lparr>userId = 0, email = ''ada@example.com'', iat = 0, exp = 604800\<rparr> \<and>
   verify example_libs example_config example_env (bearer ''0.ada@example.com.k3y'') ada_db =
     (\<lparr>status = 200,
       body = JObj [(''message'', JStr ''Token is valid''),
                    (''user'', JObj [(''userId'', JId 0), (''email'', JStr ''ada@example.com''),
                                     (''iat'', JNum 0), (''exp'', JNum 604800)])]\<rparr>, ada_db)"
proof -
  have ne: "''0.ada@example.com.k3y'' \<noteq> []"
    by simp
  show ?thesis
    using verify_returns_embedded_claims [OF ada_token_header ne ada_token_verified, of ada_db]
      ada_token_header ada_token_verified
    by simp
qed

subsection \<open>Rejected tokens\<close>

text \<open>
  Claim C4, as the code has it. The specification gives an expired token the error
  kind Expired, distinct from the kinds of a bad signature and of a malformed token.
  The callback of the middleware has one answer for every error of \<open>jwt.verify\<close>. In
  the example run, a week after Ada registered, her token is expired for
  jsonwebtoken, a second token has an invalid signature and a third is malformed; the
  verify route answers the three requests alike.
\<close>

theorem expired_token_counterexample:
  "jwt_verify example_libs ''0.ada@example.com.k3y'' (JWT_SECRET example_config) 604800 =
     Inl TokenExpiredError \<and>
   jwt_verify example_libs ''0.ada@example.com.xxx'' (JWT_SECRET example_config) 604800 =
     Inl (JsonWebTokenError ''invalid signature'') \<and>
   jwt_verify example_libs ''garbage'' (JWT_SECRET example_config) 604800 =
     Inl (JsonWebTokenError ''jwt malformed'') \<and>
   verify example_libs example_config (example_env\<lparr>now := 604800\<rparr>)
     (bearer ''0.ada@example.com.k3y'') ada_db =
   verify example_libs example_config (example_env\<lparr>now := 604800\<rparr>)
     (bearer ''0.ada@example.com.xxx'') ada_db \<and>
   verify example_libs example_config (example_env\<lparr>now := 604800\<rparr>)
     (bearer ''0.ada@example.com.k3y'') ada_db =
   verify example_libs example_config (example_env\<lparr>now := 604800\<rparr>)
     (bearer ''garbage'') ada_db"
  by (simp add: example_defs verify_def authenticateToken_def verify_callback_def header_token_def
      bearer_def js_not_def)

text \<open>
  Claim C4, amended. When the header carries a token that \<open>jwt.verify\<close> finds
  expired, the verify route answers 403 ``Invalid or expired token'' and leaves the
  database as it was; the callback gives every other error of \<open>jwt.verify\<close> the same
  answer.
\<close>

theorem expired_token_rejected:
  assumes "header_token h = Some t" and "t \<noteq> []"
    and "jwt_verify L t (JWT_SECRET cfg) (now E) = Inl TokenExpiredError"
  shows "verify L cfg E h d = (message 403 ''Invalid or expired token'', d) \<and>
         (\<forall>err. verify_callback (Inl err) = verify_callback (Inl TokenExpiredError))"
  using authenticateToken_rejects [OF assms]
  by (simp add: verify_def verify_callback_def)

theorem expired_token_rejected_witness:
  "header_token (bearer ''0.ada@example.com.k3y'') = Some ''0.ada@example.com.k3y'' \<and>
   jwt_verify example_libs ''0.ada@example.com.k3y'' (JWT_SECRET example_config)
     (now (example_env\<lparr>now := 604800\<rparr>)) = Inl TokenExpiredError \<and>
   verify example_libs example_config (example_env\<lparr>now := 604800\<rparr>)
     (bearer ''0.ada@example.com.k3y'') ada_db = (message 403 ''Invalid or expired token'', ada_db)"
proof -
  have ne: "''0.ada@example.com.k3y'' \<noteq> []"
    by simp
  have v: "jwt_verify example_libs ''0.ada@example.com.k3y'' (JWT_SECRET example_config)
     (now (example_env\<lparr>now := 604800\<rparr>)) = Inl TokenExpiredError"
    by (simp add: example_defs)
  show ?thesis
    using expired_token_rejected [OF ada_token_header ne v, of ada_db] ada_token_header v
    by simp
qed

text \<open>
  Claim C5, as the code has it. The specification gives a token with an altered
  signature or altered claims the error kind InvalidSignature. The callback answers
  the ``invalid signature'' error of \<open>jwt.verify\<close> with 403 ``Invalid or expired
  token'', which is also its answer to ``jwt malformed'' and to an expired token: the
  response names no kind.
\<close>

theorem altered_token_counterexample:
  "verify_callback (Inl (JsonWebTokenError ''invalid signature'')) =
     Inl (message 403 ''Invalid or expired token'') \<and>
   verify_callback (Inl (JsonWebTokenError ''invalid signature'')) =
     verify_callback (Inl (JsonWebTokenError ''jwt malformed'')) \<and>
   verify_callback (Inl (JsonWebTokenError ''invalid signature'')) =
     verify_callback (Inl TokenExpiredError)"
  by (simp add: verify_callback_def)

text \<open>
  Claim C5, amended. Whether an altered token passes the signature check is decided
  inside jsonwebtoken. Whenever \<open>jwt.verify\<close> rejects the token of the header, for
  whatever reason, the verify route and the profile route answer 403 ``Invalid or
  expired token'', and the database is as it was, its list of driver calls included:
  the request reached neither the handler of the route nor the store.
\<close>

theorem altered_token_rejected:
  assumes "header_token h = Some t" and "t \<noteq> []"
    and "jwt_verify L t (JWT_SECRET cfg) (now E) = Inl err"
  shows "verify L cfg E h d = (message 403 ''Invalid or expired token'', d) \<and>
         profile L cfg E h d = (message 403 ''Invalid or expired token'', d)"
  using authenticateToken_rejects [OF assms]
  by (simp add: verify_def profile_def)

theorem altered_token_rejected_witness:
  "header_token (bearer ''0.ada@example.com.xxx'') = Some ''0.ada@example.com.xxx'' \<and>
   jwt_verify example_libs ''0.ada@example.com.xxx'' (JWT_SECRET example_config) (now example_env) =
     Inl (JsonWebTokenError ''invalid signature'') \<and>
   verify example_libs example_config example_env (bearer ''0.ada@example.com.xxx'') ada_db =
     (message 403 ''Invalid or expired token'', ada_db) \<and>
   profile example_libs example_config example_env (bearer ''0.ada@example.com.xxx'') ada_db =
     (message 403 ''Invalid or expired token'', ada_db)"
proof -
  have h: "header_token (bearer ''0.ada@example.com.xxx'') = Some ''0.ada@example.com.xxx''"
    by (simp add: header_token_def bearer_def)
  have ne: "''0.ada@example.com.xxx'' \<noteq> []"
    by simp
  have v: "jwt_verify example_libs ''0.ada@example.com.xxx'' (JWT_SECRET example_config)
     (now example_env) = Inl (JsonWebTokenError ''invalid signature'')"
    by (simp add: example_defs)
  show ?thesis
    using altered_token_rejected [OF h ne v, of ada_db] h v by simp
qed

subsection \<open>What a successful response is\<close>

lemma find_None_all: "find P xs = None \<longleftrightarrow> (\<forall>x\<in>set xs. \<not> P x)"
  by (induction xs) auto

lemma register_success:
  assumes "register L cfg E req d = (r, d')" and "status r = 201"
  shows "\<exists>token.
           jwt_sign L \<lparr>userId = next_id d, email = str_of (reg_email req)\<rparr> (JWT_SECRET cfg)
             seven_days (now E) = Some token \<and>
           r = \<lparr>status = 201,
                 body = JObj [(''message'', JStr ''User created successfully''),
                              (''token'', JStr token),
                              (''user'', JObj [(''id'', JId (next_id d)),
                                               (''name'', JStr (str_of (reg_name req))),
                                               (''email'', JStr (str_of (reg_email req)))])]\<rparr> \<and>
           find (\<lambda>u. doc_email u = str_of (reg_email req)) (users d) = None \<and>
           users d' = users d @
              [\<lparr>doc_id = next_id d, doc_name = str_of (reg_name req),
                doc_email = str_of (reg_email req),
                doc_password = bcrypt_hash L (str_of (reg_password req)) saltRounds (salt E),
                doc_createdAt = now E\<rparr>]"
  using assms
  by (auto simp add: register_def register_user_def findOne_email_def insertOne_def Let_def
      message_def server_error_def user_json_def
      split: option.splits sum.splits prod.splits if_splits)

lemma login_success:
  assumes "login L cfg E req d = (r, d')" and "status r = 200"
  shows "\<exists>token u.
           find (\<lambda>u. doc_email u = str_of (login_email req)) (users d) = Some u \<and>
           jwt_sign L \<lparr>userId = doc_id u, email = doc_email u\<rparr> (JWT_SECRET cfg)
             seven_days (now E) = Some token \<and>
           r = \<lparr>status = 200,
                 body = JObj [(''message'', JStr ''Login successful''),
                              (''token'', JStr token),
                              (''user'', JObj [(''id'', JId (doc_id u)),
                                               (''name'', JStr (doc_name u)),
                                               (''email'', JStr (doc_email u))])]\<rparr>"
  using assms
  by (auto simp add: login_def login_user_def findOne_email_def Let_def
      message_def server_error_def user_json_def
      split: option.splits sum.splits prod.splits if_splits)

lemma authenticateToken_status:
  "authenticateToken L cfg E h = Inl r \<Longrightarrow> status r \<noteq> 200"
  by (auto simp add: authenticateToken_def verify_callback_def message_def Let_def
      split: if_splits sum.splits)

lemma profile_success:
  assumes "profile L cfg E h d = (r, d')" and "status r = 200"
  shows "\<exists>c u.
           authenticateToken L cfg E h = Inr c \<and>
           find (\<lambda>u. doc_id u = userId c) (users d) = Some u \<and>
           r = \<lparr>status = 200,
                 body = JObj [(''user'', JObj [(''_id'', JId (doc_id u)),
                                               (''name'', JStr (doc_name u)),
                                               (''email'', JStr (doc_email u)),
                                               (''createdAt'', JDate (doc_createdAt u))])]\<rparr>"
  using assms authenticateToken_status [of L cfg E h]
  by (auto simp add: profile_def findOne_id_def doc_json_def message_def server_error_def
      split: option.splits sum.splits prod.splits if_splits)

text \<open>
  Claim C9. The body of a 201 of the register route is exactly the message, the token
  \<open>jwt.sign\<close> returned for the payload \<open>{ userId, email }\<close>, and \<open>user\<close> with the
  fields id, name and email; the body of a 200 of the login route is the same for the
  stored document the lookup found. A 200 of the profile route carries the stored
  document without its \<open>password\<close> field. None of the three bodies has a field
  \<open>password\<close> at any depth, and the stored hash is no part of them. When the token is
  accepted and the lookup finds no document with the user id of the token, the profile
  route answers 404.
\<close>

theorem responses_exclude_password_hash:
  "(status (fst (register L cfg E req d)) = 201 \<longrightarrow>
      \<not> has_key ''password'' (body (fst (register L cfg E req d))) \<and>
      (\<exists>token.
           jwt_sign L \<lparr>userId = next_id d, email = str_of (reg_email req)\<rparr> (JWT_SECRET cfg)
             seven_days (now E) = Some token \<and>
           body (fst (register L cfg E req d)) =
             JObj [(''message'', JStr ''User created successfully''),
                   (''token'', JStr token),
                   (''user'', JObj [(''id'', JId (next_id d)),
                                    (''name'', JStr (str_of (reg_name req))),
                                    (''email'', JStr (str_of (reg_email req)))])])) \<and>
   (status (fst (login L cfg E lreq d)) = 200 \<longrightarrow>
      \<not> has_key ''password'' (body (fst (login L cfg E lreq d))) \<and>
      (\<exists>token u.
           find (\<lambda>u. doc_email u = str_of (login_email lreq)) (users d) = Some u \<and>
           jwt_sign L \<lparr>userId = doc_id u, email = doc_email u\<rparr> (JWT_SECRET cfg)
             seven_days (now E) = Some token \<and>
           body (fst (login L cfg E lreq d)) =
             JObj [(''message'', JStr ''Login successful''),
                   (''token'', JStr token),
                   (''user'', JObj [(''id'', JId (doc_id u)), (''name'', JStr (doc_name u)),
                                    (''email'', JStr (doc_email u))])])) \<and>
   (status (fst (profile L cfg E h d)) = 200 \<longrightarrow>
      \<not> has_key ''password'' (body (fst (profile L cfg E h d))) \<and>
      (\<exists>c u. authenticateToken L cfg E h = Inr c \<and>
           find (\<lambda>u. doc_id u = userId c) (users d) = Some u \<and>
           body (fst (profile L cfg E h d)) =
             JObj [(''user'', JObj [(''_id'', JId (doc_id u)), (''name'', JStr (doc_name u)),
                                    (''email'', JStr (doc_email u)),
                                    (''createdAt'', JDate (doc_createdAt u))])])) \<and>
   (authenticateToken L cfg E h = Inr c' \<and> \<not> findOne_throws E \<and>
    find (\<lambda>u. doc_id u = userId c') (users d) = None \<longrightarrow>
      fst (profile L cfg E h d) = message 404 ''User not found'')"
proof (intro conjI impI)
  assume ok: "status (fst (register L cfg E req d)) = 201"
  obtain r d' where rd: "register L cfg E req d = (r, d')"
    by (cases "register L cfg E req d")
  from register_success [OF rd] ok rd
  show "\<not> has_key ''password'' (body (fst (register L cfg E req d)))"
    and "\<exists>token.
           jwt_sign L \<lparr>userId = next_id d, email = str_of (reg_email req)\<rparr> (JWT_SECRET cfg)
             seven_days (now E) = Some token \<and>
           body (fst (register L cfg E req d)) =
             JObj [(''message'', JStr ''User created successfully''),
                   (''token'', JStr token),
                   (''user'', JObj [(''id'', JId (next_id d)),
                                    (''name'', JStr (str_of (reg_name req))),
                                    (''email'', JStr (str_of (reg_email req)))])]"
    by auto
next
  assume ok: "status (fst (login L cfg E lreq d)) = 200"
  obtain r d' where rd: "login L cfg E lreq d = (r, d')"
    by (cases "login L cfg E lreq d")
  from login_success [OF rd] ok rd
  show "\<not> has_key ''password'' (body (fst (login L cfg E lreq d)))"
    and "\<exists>token u.
           find (\<lambda>u. doc_email u = str_of (login_email lreq)) (users d) = Some u \<and>
           jwt_sign L \<lparr>userId = doc_id u, email = doc_email u\<rparr> (JWT_SECRET cfg)
             seven_days (now E) = Some token \<and>
           body (fst (login L cfg E lreq d)) =
             JObj [(''message'', JStr ''Login successful''),
                   (''token'', JStr token),
                   (''user'', JObj [(''id'', JId (doc_id u)), (''name'', JStr (doc_name u)),
                                    (''email'', JStr (doc_email u))])]"
    by auto
next
  assume ok: "status (fst (profile L cfg E h d)) = 200"
  obtain r d' where rd: "profile L cfg E h d = (r, d')"
    by (cases "profile L cfg E h d")
  from profile_success [OF rd] ok rd
  show "\<not> has_key ''password'' (body (fst (profile L cfg E h d)))"
    and "\<exists>c u. authenticateToken L cfg E h = Inr c \<and>
           find (\<lambda>u. doc_id u = userId c) (users d) = Some u \<and>
           body (fst (profile L cfg E h d)) =
             JObj [(''user'', JObj [(''_id'', JId (doc_id u)), (''name'', JStr (doc_name u)),
                                    (''email'', JStr (doc_email u)),
                                    (''createdAt'', JDate (doc_createdAt u))])]"
    by auto
next
  assume "authenticateToken L cfg E h = Inr c' \<and> \<not> findOne_throws E \<and>
    find (\<lambda>u. doc_id u = userId c') (users d) = None"
  then show "fst (profile L cfg E h d) = message 404 ''User not found''"
    by (simp add: profile_def findOne_id_def)
qed

theorem responses_exclude_password_hash_witness:
  "status (fst (register example_libs example_config example_env ada empty_db)) = 201 \<and>
   \<not> has_key ''password'' (body (fst (register example_libs example_config example_env ada empty_db))) \<and>
   status (fst (login example_libs example_config example_env
                  \<lparr>login_email = Some ''ada@example.com'', login_password = Some ''s3cret!''\<rparr>
                  ada_db)) = 200 \<and>
   \<not> has_key ''password''
       (body (fst (login example_libs example_config example_env
                     \<lparr>login_email = Some ''ada@example.com'', login_password = Some ''s3cret!''\<rparr>
                     ada_db))) \<and>
   status (fst (profile example_libs example_config example_env
                  (bearer ''0.ada@example.com.k3y'') ada_db)) = 200 \<and>
   \<not> has_key ''password''
       (body (fst (profile example_libs example_config example_env
                     (bearer ''0.ada@example.com.k3y'') ada_db))) \<and>
   authenticateToken example_libs example_config example_env (bearer ''0.ada@example.com.k3y'') =
     Inr \<lparr>userId = 0, email = ''ada@example.com'', iat = 0, exp = 604800\<rparr> \<and>
   find (\<lambda>u. doc_id u = 0) (users empty_db) = None \<and>
   fst (profile example_libs example_config example_env (bearer ''0.ada@example.com.k3y'')
          empty_db) = message 404 ''User not found''"
proof -
  let ?l = "\<lparr>login_email = Some ''ada@example.com'', login_password = Some ''s3cret!''\<rparr>"
  let ?h = "bearer ''0.ada@example.com.k3y''"
  let ?c = "\<lparr>userId = 0, email = ''ada@example.com'', iat = 0, exp = 604800\<rparr>"
  have r: "status (fst (register example_libs example_config example_env ada empty_db)) = 201"
    by (simp add: ada_registered)
  have ne: "''0.ada@example.com.k3y'' \<noteq> []"
    by simp
  have a: "authenticateToken example_libs example_config example_env ?h = Inr ?c"
    using authenticateToken_accepts [OF ada_token_header ne ada_token_verified] .
  have l: "status (fst (login example_libs example_config example_env ?l ada_db)) = 200"
    by (simp add: ada_db_eq login_def login_user_def findOne_email_def js_not_def
          example_libs_def example_config_def example_env_def)
  have p: "status (fst (profile example_libs example_config example_env ?h ada_db)) = 200"
    by (simp add: profile_def a) (simp add: findOne_id_def ada_db_eq example_env_def)
  have up: "\<not> findOne_throws example_env"
    by (simp add: example_env_def)
  have gone: "find (\<lambda>u. doc_id u = userId ?c) (users empty_db) = None"
    by (simp add: empty_db_def)
  note at_empty = responses_exclude_password_hash
      [where L = example_libs and cfg = example_config and E = example_env and req = ada
         and d = empty_db and lreq = ?l and h = ?h and c' = ?c]
  note at_ada = responses_exclude_password_hash
      [where L = example_libs and cfg = example_config and E = example_env and req = ada
         and d = ada_db and lreq = ?l and h = ?h and c' = ?c]
  from at_empty r a up gone
  have 1: "\<not> has_key ''password''
              (body (fst (register example_libs example_config example_env ada empty_db)))"
    and 2: "fst (profile example_libs example_config example_env ?h empty_db) =
              message 404 ''User not found''"
    by blast+
  from at_ada l p
  have 3: "\<not> has_key ''password'' (body (fst (login example_libs example_config example_env ?l ada_db)))"
    and 4: "\<not> has_key ''password'' (body (fst (profile example_libs example_config example_env ?h ada_db)))"
    by blast+
  have gone': "find (\<lambda>u. doc_id u = 0) (users empty_db) = None"
    by (simp add: empty_db_def)
  from r 1 l 3 p 4 a gone' 2 show ?thesis
    by blast
qed

subsection \<open>Registration and the store\<close>

text \<open>
  Claim C10, as the code has it. The register route is not atomic on every error
  path: \<open>jwt.sign\<close> runs after \<open>insertOne\<close>, and when it throws the request is answered
  with 500 while the inserted document stays. Without \<open>JWT_SECRET\<close> Ada's registration
  on the empty store is such a call.
\<close>

theorem register_atomic_counterexample:
  "fst (register example_libs \<lparr>JWT_SECRET = None\<rparr> example_env ada empty_db) =
     message 500 ''Server error'' \<and>
   users empty_db = [] \<and>
   users (snd (register example_libs \<lparr>JWT_SECRET = None\<rparr> example_env ada empty_db)) =
     [\<lparr>doc_id = 0, doc_name = ''Ada'', doc_email = ''ada@example.com'',
       doc_password = ''salts3cret!'', doc_createdAt = 0\<rparr>]"
  by (simp add: example_defs handler_defs server_error_def)

text \<open>
  Claim C10, amended. A register call that fails on a missing field, on an email that
  is already stored, or on a driver call that throws leaves the documents of the
  collection as they were; so does every call answered with 400. A call answered with
  201 has added exactly one document, made of the fields of the request and the hash
  of the password. The same holds of the two steps of the handler when other requests
  are answered in between: the step up to \<open>findOne\<close> changes no document, and the
  step from \<open>insertOne\<close> on adds nothing when \<open>insertOne\<close> throws and exactly its one
  document, to the store as it is by then, when it answers 201.
\<close>

theorem register_atomic:
  assumes "register L cfg E req d = (r, d')"
  shows "(js_not (reg_name req) \<or> js_not (reg_email req) \<or> js_not (reg_password req) \<longrightarrow>
            status r = 400 \<and> users d' = users d) \<and>
         (records_for (str_of (reg_email req)) d \<noteq> [] \<longrightarrow> status r \<noteq> 201 \<and> users d' = users d) \<and>
         (findOne_throws E \<or> insertOne_throws E \<longrightarrow> status r \<noteq> 201 \<and> users d' = users d) \<and>
         (status r = 400 \<longrightarrow> users d' = users d) \<and>
         (status r = 201 \<longrightarrow>
            users d' = users d @
              [\<lparr>doc_id = next_id d, doc_name = str_of (reg_name req),
                doc_email = str_of (reg_email req),
                doc_password = bcrypt_hash L (str_of (reg_password req)) saltRounds (salt E),
                doc_createdAt = now E\<rparr>]) \<and>
         users (snd (register_find L cfg E req d)) = users d \<and>
         (insertOne_throws E \<or> status (fst (register_insert L cfg E user d2)) = 400 \<longrightarrow>
            users (snd (register_insert L cfg E user d2)) = users d2) \<and>
         (status (fst (register_insert L cfg E user d2)) = 201 \<longrightarrow>
            users (snd (register_insert L cfg E user d2)) = users d2 @
              [\<lparr>doc_id = next_id d2, doc_name = new_name user, doc_email = new_email user,
                doc_password = new_password user, doc_createdAt = new_createdAt user\<rparr>])"
proof -
  have whole:
    "(js_not (reg_name req) \<or> js_not (reg_email req) \<or> js_not (reg_password req) \<longrightarrow>
        status r = 400 \<and> users d' = users d) \<and>
     (records_for (str_of (reg_email req)) d \<noteq> [] \<longrightarrow> status r \<noteq> 201 \<and> users d' = users d) \<and>
     (findOne_throws E \<or> insertOne_throws E \<longrightarrow> status r \<noteq> 201 \<and> users d' = users d) \<and>
     (status r = 400 \<longrightarrow> users d' = users d) \<and>
     (status r = 201 \<longrightarrow>
        users d' = users d @
          [\<lparr>doc_id = next_id d, doc_name = str_of (reg_name req),
            doc_email = str_of (reg_email req),
            doc_password = bcrypt_hash L (str_of (reg_password req)) saltRounds (salt E),
            doc_createdAt = now E\<rparr>])"
    using assms
    by (auto simp add: register_def register_user_def findOne_email_def insertOne_def Let_def
        message_def server_error_def records_for_def filter_empty_conv find_None_all
        split: option.splits sum.splits prod.splits if_splits)
  have lookup: "users (snd (register_find L cfg E req d)) = users d"
    by (simp add: register_find_def findOne_email_def split: option.splits)
  have insert:
    "(insertOne_throws E \<or> status (fst (register_insert L cfg E user d2)) = 400 \<longrightarrow>
        users (snd (register_insert L cfg E user d2)) = users d2) \<and>
     (status (fst (register_insert L cfg E user d2)) = 201 \<longrightarrow>
        users (snd (register_insert L cfg E user d2)) = users d2 @
          [\<lparr>doc_id = next_id d2, doc_name = new_name user, doc_email = new_email user,
            doc_password = new_password user, doc_createdAt = new_createdAt user\<rparr>])"
    by (auto simp add: register_insert_def insertOne_def message_def server_error_def
        split: option.splits)
  from whole lookup insert show ?thesis
    by blast
qed

theorem register_atomic_witness:
  "status (fst (register example_libs example_config example_env ada empty_db)) = 201 \<and>
   users (snd (register example_libs example_config example_env ada empty_db)) =
     users empty_db @
       [\<lparr>doc_id = 0, doc_name = ''Ada'', doc_email = ''ada@example.com'',
         doc_password = ''salts3cret!'', doc_createdAt = 0\<rparr>] \<and>
   records_for ''ada@example.com'' ada_db \<noteq> [] \<and>
   users (snd (register example_libs example_config example_env ada ada_db)) = users ada_db"
proof -
  have ok: "status (fst (register example_libs example_config example_env ada empty_db)) = 201"
    by (simp add: ada_registered)
  have first: "register example_libs example_config example_env ada empty_db =
      (fst (register example_libs example_config example_env ada empty_db),
       snd (register example_libs example_config example_env ada empty_db))"
    by simp
  have again: "register example_libs example_config example_env ada ada_db =
      (fst (register example_libs example_config example_env ada ada_db),
       snd (register example_libs example_config example_env ada ada_db))"
    by simp
  have v: "\<lparr>doc_id = next_id empty_db, doc_name = str_of (reg_name ada),
             doc_email = str_of (reg_email ada),
             doc_password = bcrypt_hash example_libs (str_of (reg_password ada)) saltRounds
                              (salt example_env),
             doc_createdAt = now example_env\<rparr> =
           \<lparr>doc_id = 0, doc_name = ''Ada'', doc_email = ''ada@example.com'',
             doc_password = ''salts3cret!'', doc_createdAt = 0\<rparr>"
    by (simp add: example_defs)
  have e: "str_of (reg_email ada) = ''ada@example.com''"
    by (simp add: ada_def)
  have dup: "records_for ''ada@example.com'' ada_db \<noteq> []"
    by (simp add: records_for_def ada_db_eq)
  from register_atomic [OF first, unfolded v] ok
  have one: "users (snd (register example_libs example_config example_env ada empty_db)) =
     users empty_db @
       [\<lparr>doc_id = 0, doc_name = ''Ada'', doc_email = ''ada@example.com'',
         doc_password = ''salts3cret!'', doc_createdAt = 0\<rparr>]"
    by blast
  from register_atomic [OF again, unfolded e] dup
  have none: "users (snd (register example_libs example_config example_env ada ada_db)) =
     users ada_db"
    by blast
  from ok one dup none show ?thesis
    by blast
qed

text \<open>
  The failure after the insert in general: with valid fields, a fresh email and no
  driver call throwing, a \<open>jwt.sign\<close> that throws gives 500 and one document more.
\<close>

lemma register_sign_failure:
  assumes "\<not> js_not (reg_name req)" and "\<not> js_not (reg_email req)"
    and "\<not> js_not (reg_password req)"
    and "\<not> findOne_throws E" and "\<not> insertOne_throws E"
    and "records_for (str_of (reg_email req)) d = []"
    and "jwt_sign L \<lparr>userId = next_id d, email = str_of (reg_email req)\<rparr> (JWT_SECRET cfg)
           seven_days (now E) = None"
  shows "fst (register L cfg E req d) = server_error \<and>
         length (users (snd (register L cfg E req d))) = Suc (length (users d))"
  using assms
  by (auto simp add: register_def register_user_def findOne_email_def insertOne_def Let_def
      records_for_def filter_empty_conv find_None_all
      split: option.splits sum.splits prod.splits if_splits)

subsection \<open>Register, then verify\<close>



subsection \<open>Registering an email twice\<close>

lemma register_valid_fields:
  assumes "register L cfg E req d = (r, d')" and "status r = 201"
  shows "\<not> js_not (reg_email req)"
  using assms by (auto simp add: register_def message_def split: if_splits)

text \<open>
  Claim C2, as the code has it. The lookup of the register route compares the email
  as it stands. After Ada has registered as \<open>ada@example.com\<close>, a second call with
  \<open>ADA@example.com\<close>, the same email up to the case of its letters, is answered with
  201, and the collection then holds two documents for that normalized email.
\<close>

theorem duplicate_register_counterexample:
  "status (fst (register example_libs example_config example_env ada empty_db)) = 201 \<and>
   map lower_case ''ADA@example.com'' = map lower_case ''ada@example.com'' \<and>
   status (fst (register example_libs example_config example_env
                  (ada\<lparr>reg_email := Some ''ADA@example.com''\<rparr>) ada_db)) = 201 \<and>
   length (normalized_records_for ''ADA@example.com''
             (snd (register example_libs example_config example_env
                     (ada\<lparr>reg_email := Some ''ADA@example.com''\<rparr>) ada_db))) = 2"
  by (simp add: ada_registered ada_db_eq)
     (simp add: example_defs handler_defs normalized_records_for_def lower_case_def)

text \<open>
  The two steps of the register handler, and what each does to the documents stored
  under an email.
\<close>

lemma register_in_two_steps:
  "register L cfg E req d =
     (case register_find L cfg E req d of
        (Inl answered, d1) \<Rightarrow> (answered, d1)
      | (Inr user, d1) \<Rightarrow> register_insert L cfg E user d1)"
  by (simp add: register_def register_user_def register_find_def register_insert_def Let_def
      findOne_email_def split: option.splits sum.splits prod.splits)

lemma register_find_users: "users (snd (register_find L cfg E req d)) = users d"
  by (simp add: register_find_def findOne_email_def split: option.splits)

lemma register_find_in_flight:
  assumes "register_find L cfg E req d = (Inr user, d1)"
  shows "records_for (new_email user) d = []"
  using assms
  by (auto simp add: register_find_def findOne_email_def records_for_def filter_empty_conv
      find_None_all split: if_splits option.splits)

lemma register_insert_other:
  "new_email user \<noteq> e \<Longrightarrow>
   records_for e (snd (register_insert L cfg E user d)) = records_for e d"
  by (auto simp add: register_insert_def insertOne_def records_for_def split: option.splits)

lemma register_insert_grows:
  "records_for e d \<noteq> [] \<Longrightarrow> records_for e (snd (register_insert L cfg E user d)) \<noteq> []"
  by (auto simp add: register_insert_def insertOne_def records_for_def split: option.splits)

lemma register_insert_success:
  assumes "register_insert L cfg E user d = (r, d')" and "status r = 201"
  shows "records_for (new_email user) d' \<noteq> []"
  using assms
  by (auto simp add: register_insert_def insertOne_def records_for_def server_error_def
      message_def split: option.splits if_splits)

lemma login_keeps_users: "users (snd (login L cfg E req d)) = users d"
  by (auto simp add: login_def login_user_def findOne_email_def
      split: option.splits sum.splits prod.splits if_splits)

lemma profile_keeps_users: "users (snd (profile L cfg E h d)) = users d"
  by (auto simp add: profile_def findOne_id_def
      split: option.splits sum.splits prod.splits if_splits)

lemma verify_keeps_users: "users (snd (verify L cfg E h d)) = users d"
  by (auto simp add: verify_def split: sum.splits)

text \<open>
  Two registrations of one email that are both in flight both insert: the collection
  has no unique index, and each lookup ran before the other's insert.
\<close>

lemma overlapping_registrations:
  "length (records_for ''ada@example.com''
     (store (run example_libs example_config
        [RegisterArrives example_env ada, RegisterArrives example_env ada,
         RegisterResumes 0, RegisterResumes 0]
        \<lparr>store = empty_db, in_flight = []\<rparr>))) = 2"
  by (simp add: register_find_def register_insert_def findOne_email_def insertOne_def
      records_for_def js_not_def example_defs)

text \<open>
  Documents are never removed, so an email that is stored stays stored under every
  interleaving of events; and an email that is settled stays settled, since a
  registration of it that arrives is turned away by its lookup.
\<close>

lemma step_keeps_record:
  assumes "records_for e (store s) \<noteq> []"
  shows "records_for e (store (step L cfg ev s)) \<noteq> []"
proof (cases ev)
  case (RegisterArrives E req)
  have "records_for e (snd (register_find L cfg E req (store s))) = records_for e (store s)"
    by (simp add: records_for_def register_find_users)
  with assms RegisterArrives show ?thesis
    by (auto split: prod.splits sum.splits)
next
  case (RegisterResumes i)
  with assms show ?thesis
    by (simp add: register_insert_grows)
next
  case (LoginRequest E req)
  with assms show ?thesis by (simp add: records_for_def login_keeps_users)
next
  case (ProfileRequest E h)
  with assms show ?thesis by (simp add: records_for_def profile_keeps_users)
next
  case (VerifyRequest E h)
  with assms show ?thesis by (simp add: records_for_def verify_keeps_users)
qed

lemma run_keeps_record:
  "records_for e (store s) \<noteq> [] \<Longrightarrow> records_for e (store (run L cfg evs s)) \<noteq> []"
  by (induction evs arbitrary: s) (simp_all add: step_keeps_record)

lemma step_keeps_settled:
  assumes "settled e s"
  shows "settled e (step L cfg ev s)"
proof (cases ev)
  case (RegisterArrives E req)
  have same: "records_for e (snd (register_find L cfg E req (store s))) = records_for e (store s)"
    by (simp add: records_for_def register_find_users)
  show ?thesis
  proof (cases "register_find L cfg E req (store s)")
    case (Pair a d1)
    show ?thesis
    proof (cases a)
      case (Inl answered)
      with Pair RegisterArrives assms same show ?thesis
        by (simp add: settled_def registering_def)
    next
      case (Inr user)
      with Pair have "records_for (new_email user) (store s) = []"
        by (simp add: register_find_in_flight)
      with assms have "new_email user \<noteq> e"
        by (auto simp add: settled_def)
      with Pair Inr RegisterArrives assms same show ?thesis
        by (simp add: settled_def registering_def)
    qed
  qed
next
  case (RegisterResumes i)
  show ?thesis
  proof (cases "i < length (in_flight s)")
    case True
    with assms have other: "new_email (snd (in_flight s ! i)) \<noteq> e"
      by (auto simp add: settled_def registering_def list_ex_iff)
    have "set (take i (in_flight s) @ drop (Suc i) (in_flight s)) \<subseteq> set (in_flight s)"
      using set_take_subset set_drop_subset by fastforce
    with assms have "\<not> list_ex (\<lambda>p. new_email (snd p) = e)
                       (take i (in_flight s) @ drop (Suc i) (in_flight s))"
      unfolding settled_def registering_def list_ex_iff by blast
    with True assms RegisterResumes register_insert_other [OF other] show ?thesis
      by (simp add: settled_def registering_def)
  next
    case False
    with assms RegisterResumes show ?thesis by simp
  qed
next
  case (LoginRequest E req)
  with assms show ?thesis
    by (simp add: settled_def registering_def records_for_def login_keeps_users)
next
  case (ProfileRequest E h)
  with assms show ?thesis
    by (simp add: settled_def registering_def records_for_def profile_keeps_users)
next
  case (VerifyRequest E h)
  with assms show ?thesis
    by (simp add: settled_def registering_def records_for_def verify_keeps_users)
qed

lemma run_keeps_settled: "settled e s \<Longrightarrow> settled e (run L cfg evs s)"
  by (induction evs arbitrary: s) (simp_all add: step_keeps_settled)

lemma register_existing:
  assumes "records_for e d \<noteq> []" and "reg_email req = Some e"
    and "\<not> js_not (reg_email req)" and "\<not> js_not (reg_name req)"
    and "\<not> js_not (reg_password req)" and "\<not> findOne_throws E"
  shows "register L cfg E req d =
           (message 400 ''User already exists'', d\<lparr>calls := calls d @ [FindOneByEmail e]\<rparr>)"
proof -
  from assms(1) obtain u where "find (\<lambda>u. doc_email u = e) (users d) = Some u"
    by (cases "find (\<lambda>u. doc_email u = e) (users d)")
       (auto simp add: records_for_def find_None_all filter_empty_conv)
  with assms show ?thesis
    by (simp add: register_def register_user_def findOne_email_def)
qed

text \<open>
  Claim C2, amended. Once the insert of a registration of the email \<open>e\<close> has been
  answered with 201, then after any sequence of events (requests arriving, registrations
  in flight resuming, in any order) a register call with the very same email string, a
  name and a password, whose lookup does not throw, is answered with 400 ``User already
  exists'' and adds no document, and the collection holds a document with that email.
  It holds exactly one if it held exactly one after the first insert and no other
  registration of \<open>e\<close> was in flight then.
\<close>

theorem duplicate_register_rejected:
  assumes first: "register_insert L cfg E1 user1 d0 = (r1, store s1)" and ok: "status r1 = 201"
    and later: "s2 = run L cfg evs s1"
    and same: "reg_email req2 = Some (new_email user1)"
    and email: "\<not> js_not (reg_email req2)"
    and name: "\<not> js_not (reg_name req2)" and password: "\<not> js_not (reg_password req2)"
    and up: "\<not> findOne_throws E2"
  shows "fst (register L cfg E2 req2 (store s2)) = message 400 ''User already exists'' \<and>
         users (snd (register L cfg E2 req2 (store s2))) = users (store s2) \<and>
         records_for (new_email user1) (store s2) \<noteq> [] \<and>
         (length (records_for (new_email user1) (store s1)) = 1 \<and>
          \<not> registering (new_email user1) s1 \<longrightarrow>
            length (records_for (new_email user1) (snd (register L cfg E2 req2 (store s2)))) = 1)"
proof -
  let ?e = "new_email user1"
  from register_insert_success [OF first ok] have "records_for ?e (store s1) \<noteq> []" .
  then have some: "records_for ?e (store s2) \<noteq> []"
    unfolding later by (rule run_keeps_record)
  note reg = register_existing [OF some same email name password up, of L cfg]
  have one: "length (records_for ?e (store s2)) = 1"
    if "length (records_for ?e (store s1)) = 1 \<and> \<not> registering ?e s1"
    using run_keeps_settled [of ?e s1 L cfg evs] that later by (simp add: settled_def)
  from reg some one show ?thesis
    by (simp add: records_for_def)
qed

theorem duplicate_register_rejected_witness:
  "register_insert example_libs example_config example_env
     \<lparr>new_name = ''Ada'', new_email = ''ada@example.com'', new_password = ''salts3cret!'',
       new_createdAt = 0\<rparr>
     (empty_db\<lparr>calls := [FindOneByEmail ''ada@example.com'']\<rparr>) =
     (\<lparr>status = 201,
       body = JObj [(''message'', JStr ''User created successfully''),
                    (''token'', JStr ''0.ada@example.com.k3y''),
                    (''user'', user_json 0 ''Ada'' ''ada@example.com'')]\<rparr>, ada_db) \<and>
   length (records_for ''ada@example.com'' ada_db) = 1 \<and>
   \<not> registering ''ada@example.com'' \<lparr>store = ada_db, in_flight = []\<rparr> \<and>
   fst (register example_libs example_config example_env ada
          (store (run example_libs example_config
             [RegisterArrives example_env (ada\<lparr>reg_email := Some ''bob@example.com''\<rparr>),
              VerifyRequest example_env None, RegisterResumes 0]
             \<lparr>store = ada_db, in_flight = []\<rparr>))) =
     message 400 ''User already exists'' \<and>
   length (records_for ''ada@example.com''
     (snd (register example_libs example_config example_env ada
          (store (run example_libs example_config
             [RegisterArrives example_env (ada\<lparr>reg_email := Some ''bob@example.com''\<rparr>),
              VerifyRequest example_env None, RegisterResumes 0]
             \<lparr>store = ada_db, in_flight = []\<rparr>))))) = 1"
proof -
  let ?u = "\<lparr>new_name = ''Ada'', new_email = ''ada@example.com'', new_password = ''salts3cret!'',
             new_createdAt = 0\<rparr>"
  let ?r = "\<lparr>status = 201,
             body = JObj [(''message'', JStr ''User created successfully''),
                          (''token'', JStr ''0.ada@example.com.k3y''),
                          (''user'', user_json 0 ''Ada'' ''ada@example.com'')]\<rparr>"
  let ?s = "\<lparr>store = ada_db, in_flight = []\<rparr>"
  have first: "register_insert example_libs example_config example_env ?u
                 (empty_db\<lparr>calls := [FindOneByEmail ''ada@example.com'']\<rparr>) = (?r, store ?s)"
    by (simp add: ada_db_eq) (simp add: register_insert_def insertOne_def example_defs)
  have ok: "status ?r = 201"
    by simp
  have same: "reg_email ada = Some (new_email ?u)"
    by (simp add: ada_def)
  have email: "\<not> js_not (reg_email ada)" and name: "\<not> js_not (reg_name ada)"
    and password: "\<not> js_not (reg_password ada)"
    by (simp_all add: ada_def js_not_def)
  have up: "\<not> findOne_throws example_env"
    by (simp add: example_env_def)
  have one: "length (records_for ''ada@example.com'' ada_db) = 1"
    by (simp add: records_for_def ada_db_eq)
  have none: "\<not> registering ''ada@example.com'' ?s"
    by (simp add: registering_def)
  have e: "new_email ?u = ''ada@example.com''" and st: "store ?s = ada_db"
    by simp_all
  note dup = duplicate_register_rejected [OF first ok refl same email name password up,
      unfolded e st]
  from dup one none first [unfolded st] show ?thesis
    by blast
qed

subsection \<open>The stored hash\<close>

text \<open>
  What the two routes do with bcryptjs: the document a registration stores holds
  \<open>bcrypt.hash\<close> of its password at cost 10, and a later login with that email is
  turned away as ``Invalid credentials'' exactly when \<open>bcrypt.compare\<close> does not
  accept its password for that hash. Whether \<open>bcrypt.compare\<close> accepts is bcryptjs's
  own matter.
\<close>

lemma find_append:
  "find P (xs @ ys) = (case find P xs of None \<Rightarrow> find P ys | Some x \<Rightarrow> Some x)"
  by (induction xs) auto

lemma login_after_register:
  assumes reg: "register L cfg E req d = (r, d')" and ok: "status r = 201"
    and same: "login_email lreq = reg_email req"
    and password: "\<not> js_not (login_password lreq)"
    and up: "\<not> findOne_throws E'"
  shows "fst (login L cfg E' lreq d') = message 400 ''Invalid credentials'' \<longleftrightarrow>
         \<not> bcrypt_compare L (str_of (login_password lreq))
              (bcrypt_hash L (str_of (reg_password req)) saltRounds (salt E))"
proof -
  let ?doc = "\<lparr>doc_id = next_id d, doc_name = str_of (reg_name req),
                doc_email = str_of (reg_email req),
                doc_password = bcrypt_hash L (str_of (reg_password req)) saltRounds (salt E),
                doc_createdAt = now E\<rparr>"
  from register_success [OF reg ok]
  have "find (\<lambda>u. doc_email u = str_of (reg_email req)) (users d') = Some ?doc"
    by (auto simp add: find_append)
  moreover from register_valid_fields [OF reg ok] same have "\<not> js_not (login_email lreq)"
    by simp
  ultimately show ?thesis
    using same password up
    by (simp add: login_def login_user_def findOne_email_def message_def server_error_def
        split: option.splits)
qed

end
